theory Spec2Isabelle
  imports Complex_Main
begin

section \<open>Python values, errors and numbers\<close>

text \<open>
  The dashboard core is Python over pandas and numpy. Floats are modelled as the real
  numbers they approximate, Python ints as \<open>int\<close>, and strings as lists of code
  points: every character of the Spanish texts of the source fits one \<open>char\<close>, and
  a code point beyond ASCII is written \<open>CHR 0xED\<close>. A dictionary is a list of
  key-value pairs in insertion order, as a Python dict keeps them. A raise of the source
  is a value of \<open>py_error\<close> on the left of a sum.
\<close>

datatype pyval =
    PInt int
  | PFloat real
  | PNaN
  | PStr string
  | PList "pyval list"
  | PDict "(pyval \<times> pyval) list"

datatype py_error =
    KeyError string
  | DimensionNotFound string
  | TargetLevelNotInHierarchy string
  | NoHierarchyColumns
  | NothingToAggregate
  | ZeroDivisionError
  | EmptyArray
  | NegativeSamples

text \<open>
  \<open>round(x, ndigits)\<close> rounds to the nearest multiple of \<open>10^-ndigits\<close>, a tie to the
  even one; \<open>int(x)\<close> truncates towards zero; \<open>format_int\<close> is the decimal text an
  f-string prints for an int.
\<close>

definition round_half_even :: "real \<Rightarrow> int" where
  "round_half_even x =
     (let f = \<lfloor>x\<rfloor>; d = x - of_int f
      in if d < 1 / 2 then f
         else if d > 1 / 2 then f + 1
         else if even f then f else f + 1)"

definition py_round :: "real \<Rightarrow> nat \<Rightarrow> real" where
  "py_round x ndigits = of_int (round_half_even (x * 10 ^ ndigits)) / 10 ^ ndigits"

definition py_int :: "real \<Rightarrow> int" where
  "py_int x = (if x \<ge> 0 then \<lfloor>x\<rfloor> else \<lceil>x\<rceil>)"

fun decimal_digits :: "nat \<Rightarrow> string \<Rightarrow> string" where
  "decimal_digits n acc =
     (if n < 10 then (''0123456789'' ! n) # acc
      else decimal_digits (n div 10) ((''0123456789'' ! (n mod 10)) # acc))"

definition format_int :: "int \<Rightarrow> string" where
  "format_int i =
     (if 0 \<le> i then decimal_digits (nat i) [] else CHR ''-'' # decimal_digits (nat (- i)) [])"

definition dict_get :: "pyval \<Rightarrow> string \<Rightarrow> pyval option" where
  "dict_get d k = (case d of PDict kvs \<Rightarrow> map_of kvs (PStr k) | _ \<Rightarrow> None)"

section \<open>pandas: cells, columns and frames\<close>

text \<open>
  A DataFrame is its column labels, each with its dtype (numeric, or object for text), in
  order, and its rows in order. A row gives every column label its cell; a label that is
  not a column of the frame is never read. \<open>CNull\<close> is the missing value (NaN, None).
  The measure columns of the two sources are numeric: a cell that is not a number counts
  as missing in a sum, as \<open>skipna\<close> does for NaN.
\<close>

datatype cell = CNum real | CStr string | CNull

datatype dtype = Numeric | Object

type_synonym row = "string \<Rightarrow> cell"

record dataframe =
  columns :: "(string \<times> dtype) list"
  rows :: "row list"

definition has_column :: "dataframe \<Rightarrow> string \<Rightarrow> bool" where
  "has_column df c = (c \<in> set (map fst (columns df)))"

definition df_empty :: "dataframe \<Rightarrow> bool" where
  "df_empty df = (columns df = [] \<or> rows df = [])"

definition dtype_of :: "dataframe \<Rightarrow> string \<Rightarrow> dtype" where
  "dtype_of df c = (case map_of (columns df) c of Some t \<Rightarrow> t | None \<Rightarrow> Object)"

definition is_numeric_dtype :: "dataframe \<Rightarrow> string \<Rightarrow> bool" where
  "is_numeric_dtype df c = (map_of (columns df) c = Some Numeric)"

text \<open>
  The element-wise \<open>==\<close> of a column with a value: a missing cell equals nothing, and a
  number never equals a text. \<open>num_of\<close> is what a cell adds to \<open>Series.sum()\<close>.
\<close>

fun cell_eq :: "cell \<Rightarrow> cell \<Rightarrow> bool" where
  "cell_eq (CNum x) (CNum y) = (x = y)"
| "cell_eq (CStr s) (CStr t) = (s = t)"
| "cell_eq _ _ = False"

fun num_of :: "cell \<Rightarrow> real" where
  "num_of (CNum x) = x"
| "num_of _ = 0"

definition col_sum :: "dataframe \<Rightarrow> string \<Rightarrow> real" where
  "col_sum df c = sum_list (map (\<lambda>r. num_of (r c)) (rows df))"

text \<open>
  \<open>groupby\<close> returns its groups in the order of their keys: numbers by value, texts by
  code points, a tuple of keys lexicographically. A key column holds cells of one kind
  and a key is never missing, so the order between cells of different kinds is not used.
\<close>

fun str_le :: "string \<Rightarrow> string \<Rightarrow> bool" where
  "str_le [] _ = True"
| "str_le (a # as) [] = False"
| "str_le (a # as) (b # bs) =
     ((of_char a :: nat) < of_char b \<or> (a = b \<and> str_le as bs))"

fun cell_le :: "cell \<Rightarrow> cell \<Rightarrow> bool" where
  "cell_le (CNum x) (CNum y) = (x \<le> y)"
| "cell_le (CStr s) (CStr t) = str_le s t"
| "cell_le (CNum x) _ = True"
| "cell_le (CStr s) CNull = True"
| "cell_le _ _ = False"

fun key_le :: "cell list \<Rightarrow> cell list \<Rightarrow> bool" where
  "key_le [] _ = True"
| "key_le (a # as) [] = False"
| "key_le (a # as) (b # bs) = (if a = b then key_le as bs else cell_le a b)"

fun insort_by :: "('a \<Rightarrow> 'a \<Rightarrow> bool) \<Rightarrow> 'a \<Rightarrow> 'a list \<Rightarrow> 'a list" where
  "insort_by le k [] = [k]"
| "insort_by le k (k' # ks) = (if le k k' then k # k' # ks else k' # insort_by le k ks)"

definition sort_by :: "('a \<Rightarrow> 'a \<Rightarrow> bool) \<Rightarrow> 'a list \<Rightarrow> 'a list" where
  "sort_by le ks = foldr (insort_by le) ks []"

definition sort_keys :: "cell list list \<Rightarrow> cell list list" where
  "sort_keys ks = sort_by key_le ks"

text \<open>
  \<open>df.groupby(by)[col].sum()\<close>: the sums of a column per value of another, rows with
  a missing \<open>by\<close> cell dropped, in the order of the keys. \<open>nunique\<close> counts the distinct
  cells of a column that are not missing.
\<close>

definition groupby_sum :: "dataframe \<Rightarrow> string \<Rightarrow> string \<Rightarrow> (cell \<times> real) list" where
  "groupby_sum df by_col val_col =
     (let kept = filter (\<lambda>r. r by_col \<noteq> CNull) (rows df);
          keys = sort_by cell_le (remdups (map (\<lambda>r. r by_col) kept))
      in map (\<lambda>k. (k, sum_list (map (\<lambda>r. num_of (r val_col))
                                     (filter (\<lambda>r. r by_col = k) kept)))) keys)"

definition nunique :: "dataframe \<Rightarrow> string \<Rightarrow> nat" where
  "nunique df c = length (remdups (filter (\<lambda>v. v \<noteq> CNull) (map (\<lambda>r. r c) (rows df))))"

section \<open>olap\_functions.py\<close>

text \<open>
  The three raises of \<open>ValueError\<close> in this module are \<open>DimensionNotFound\<close>,
  \<open>TargetLevelNotInHierarchy\<close> and \<open>NoHierarchyColumns\<close>.
\<close>

definition slice_olap :: "dataframe \<Rightarrow> string \<Rightarrow> cell \<Rightarrow> py_error + dataframe" where
  "slice_olap df dimension v =
     (if \<not> has_column df dimension then Inl (DimensionNotFound dimension)
      else Inr (df\<lparr>rows := filter (\<lambda>r. cell_eq (r dimension) v) (rows df)\<rparr>))"

text \<open>
  \<open>hierarchy.index(target_level)\<close>, read only where the level is in the hierarchy.
\<close>

fun index_of :: "'a list \<Rightarrow> 'a \<Rightarrow> nat" where
  "index_of [] x = 0"
| "index_of (y # ys) x = (if y = x then 0 else Suc (index_of ys x))"

text \<open>
  \<open>df.groupby(group_cols, as_index=False).agg(...)\<close> with \<open>sum\<close> for a numeric column
  and \<open>first\<close> for any other. pandas drops the rows with a missing cell in a grouping
  column (\<open>dropna=True\<close> is the default), makes one output row per distinct key, in the
  order of the keys, with the grouping columns first; \<open>sum\<close> skips missing cells and
  \<open>first\<close> takes the first cell that is not missing. An empty aggregation (every
  column is a grouping column) is refused by pandas.
\<close>

definition first_valid :: "cell list \<Rightarrow> cell" where
  "first_valid vs = (case filter (\<lambda>v. v \<noteq> CNull) vs of [] \<Rightarrow> CNull | v # _ \<Rightarrow> v)"

definition agg_cell :: "dtype \<Rightarrow> cell list \<Rightarrow> cell" where
  "agg_cell t vs = (case t of Numeric \<Rightarrow> CNum (sum_list (map num_of vs)) | Object \<Rightarrow> first_valid vs)"

definition key_of :: "string list \<Rightarrow> row \<Rightarrow> cell list" where
  "key_of group_cols r = map r group_cols"

definition group_row :: "dataframe \<Rightarrow> string list \<Rightarrow> row list \<Rightarrow> cell list \<Rightarrow> row" where
  "group_row df group_cols kept k =
     (\<lambda>c. if c \<in> set group_cols then
            (case map_of (zip group_cols k) c of Some v \<Rightarrow> v | None \<Rightarrow> CNull)
          else (case map_of (columns df) c of
                  Some t \<Rightarrow> agg_cell t (map (\<lambda>r. r c) (filter (\<lambda>r. key_of group_cols r = k) kept))
                | None \<Rightarrow> CNull))"

definition groupby_agg :: "dataframe \<Rightarrow> string list \<Rightarrow> py_error + dataframe" where
  "groupby_agg df group_cols =
     (let agg_cols = filter (\<lambda>ct. fst ct \<notin> set group_cols) (columns df);
          kept = filter (\<lambda>r. CNull \<notin> set (key_of group_cols r)) (rows df);
          keys = sort_keys (remdups (map (key_of group_cols) kept))
      in if agg_cols = [] then Inl NothingToAggregate
         else Inr \<lparr>columns = map (\<lambda>c. (c, dtype_of df c)) group_cols @ agg_cols,
                   rows = map (group_row df group_cols kept) keys\<rparr>)"

definition drill_down :: "dataframe \<Rightarrow> string \<Rightarrow> string list \<Rightarrow> string \<Rightarrow> py_error + dataframe" where
  "drill_down df dimension hierarchy target_level =
     (if target_level \<notin> set hierarchy then Inl (TargetLevelNotInHierarchy target_level)
      else
        let target_idx = index_of hierarchy target_level;
            group_cols = filter (has_column df) (take (target_idx + 1) hierarchy)
        in if group_cols = [] then Inl NoHierarchyColumns
           else groupby_agg df group_cols)"

definition roll_up :: "dataframe \<Rightarrow> string \<Rightarrow> string list \<Rightarrow> string \<Rightarrow> py_error + dataframe" where
  "roll_up df dimension hierarchy target_level =
     (if target_level \<notin> set hierarchy then Inl (TargetLevelNotInHierarchy target_level)
      else
        let target_idx = index_of hierarchy target_level;
            group_cols = filter (has_column df) (take (target_idx + 1) hierarchy)
        in if group_cols = [] then Inl NoHierarchyColumns
           else groupby_agg df group_cols)"

text \<open>The local \<open>group_cols\<close> of both functions, for stating their properties.\<close>

definition group_cols_of :: "dataframe \<Rightarrow> string list \<Rightarrow> string \<Rightarrow> string list" where
  "group_cols_of df hierarchy target_level =
     filter (has_column df) (take (index_of hierarchy target_level + 1) hierarchy)"

section \<open>kpi\_calculator.py\<close>

text \<open>
  The six calculators return a value and a metadata dictionary. \<open>df[col]\<close> raises
  \<open>KeyError\<close> for a label that is not a column; \<open>df.empty\<close> is \<open>df_empty\<close>. A
  comparison \<open>col > 0\<close> is false on a missing cell (\<open>gt0\<close>). The status of every
  calculator is taken from the value before it is rounded, as in the source.
\<close>

fun gt0 :: "cell \<Rightarrow> bool" where
  "gt0 (CNum x) = (x > 0)"
| "gt0 _ = False"

definition pyval_of_cell :: "cell \<Rightarrow> pyval" where
  "pyval_of_cell v = (case v of CNum x \<Rightarrow> PFloat x | CStr s \<Rightarrow> PStr s | CNull \<Rightarrow> PNaN)"

definition calculate_completion_rate :: "dataframe \<Rightarrow> py_error + real \<times> pyval" where
  "calculate_completion_rate df_proy =
     (if df_empty df_proy then
        Inr (0.0, PDict [(PStr ''completed'', PInt 0), (PStr ''total'', PInt 0),
                         (PStr ''status'', PStr ''No data'')])
      else if \<not> has_column df_proy ''ganancia_neta'' then Inl (KeyError ''ganancia_neta'')
      else
        let total_projects = length (rows df_proy);
            completed_projects = length (filter (\<lambda>r. gt0 (r ''ganancia_neta'')) (rows df_proy));
            rate = (if total_projects > 0
                    then real completed_projects / real total_projects * 100 else 0.0);
            metadata = PDict
              [(PStr ''completed'', PInt (int completed_projects)),
               (PStr ''total'', PInt (int total_projects)),
               (PStr ''in_progress'', PInt (int total_projects - int completed_projects)),
               (PStr ''status'', PStr (if rate \<ge> 80 then ''healthy''
                                       else if rate \<ge> 50 then ''warning'' else ''critical''))]
        in Inr (py_round rate 2, metadata))"

definition calculate_budget_efficiency :: "dataframe \<Rightarrow> py_error + real \<times> pyval" where
  "calculate_budget_efficiency df_proy =
     (if \<not> has_column df_proy ''costo_total_real'' then Inl (KeyError ''costo_total_real'')
      else if \<not> has_column df_proy ''ganancia_neta'' then Inl (KeyError ''ganancia_neta'')
      else
        let df_valid = filter (\<lambda>r. gt0 (r ''costo_total_real'') \<and> r ''ganancia_neta'' \<noteq> CNull)
                              (rows df_proy);
            roi = map (\<lambda>r. (num_of (r ''ganancia_neta'') / num_of (r ''costo_total_real'')) * 100)
                      df_valid
        in case roi of
             [] \<Rightarrow> Inr (0.0, PDict [(PStr ''avg_roi'', PInt 0), (PStr ''projects_analyzed'', PInt 0),
                                     (PStr ''status'', PStr ''No data'')])
           | x # xs \<Rightarrow>
               let avg_efficiency = sum_list roi / real (length roi);
                   metadata = PDict
                     [(PStr ''avg_roi'', PFloat (py_round avg_efficiency 2)),
                      (PStr ''best_roi'', PFloat (py_round (fold max xs x) 2)),
                      (PStr ''worst_roi'', PFloat (py_round (fold min xs x) 2)),
                      (PStr ''projects_analyzed'', PInt (int (length df_valid))),
                      (PStr ''status'', PStr (if avg_efficiency \<ge> 30 then ''healthy''
                                              else if avg_efficiency \<ge> 15 then ''warning''
                                              else ''critical''))]
               in Inr (py_round avg_efficiency 2, metadata))"

definition calculate_team_utilization :: "dataframe \<Rightarrow> py_error + real \<times> pyval" where
  "calculate_team_utilization df_proy =
     (if df_empty df_proy then
        Inr (0.0, PDict [(PStr ''active'', PInt 0), (PStr ''total'', PInt 0),
                         (PStr ''status'', PStr ''No data'')])
      else if \<not> has_column df_proy ''ganancia_neta'' then Inl (KeyError ''ganancia_neta'')
      else if \<not> has_column df_proy ''costo_total_real'' then Inl (KeyError ''costo_total_real'')
      else
        let total_projects = length (rows df_proy);
            active_projects = length (filter (\<lambda>r. gt0 (r ''ganancia_neta'')
                                                  \<or> gt0 (r ''costo_total_real'')) (rows df_proy));
            utilization = (if total_projects > 0
                           then real active_projects / real total_projects * 100 else 0.0);
            unique_clients = (if has_column df_proy ''nombre_cliente''
                              then nunique df_proy ''nombre_cliente'' else 0);
            metadata = PDict
              [(PStr ''active_projects'', PInt (int active_projects)),
               (PStr ''total_projects'', PInt (int total_projects)),
               (PStr ''idle_projects'', PInt (int total_projects - int active_projects)),
               (PStr ''unique_clients'', PInt (int unique_clients)),
               (PStr ''status'', PStr (if utilization \<ge> 70 then ''healthy''
                                       else if utilization \<ge> 50 then ''warning''
                                       else ''critical''))]
        in Inr (py_round utilization 2, metadata))"

definition calculate_defect_density :: "dataframe \<Rightarrow> dataframe \<Rightarrow> py_error + real \<times> pyval" where
  "calculate_defect_density df_cal df_proy =
     (if df_empty df_cal \<or> df_empty df_proy then
        Inr (0.0, PDict [(PStr ''total_defects'', PInt 0), (PStr ''projects'', PInt 0),
                         (PStr ''status'', PStr ''No data'')])
      else if \<not> has_column df_cal ''cantidad_defectos_encontrados''
        then Inl (KeyError ''cantidad_defectos_encontrados'')
      else if \<not> has_column df_proy ''nombre_proyecto'' then Inl (KeyError ''nombre_proyecto'')
      else
        let total_defects = col_sum df_cal ''cantidad_defectos_encontrados'';
            total_projects = nunique df_proy ''nombre_proyecto'';
            density = (if total_projects > 0 then total_defects / real total_projects else 0.0);
            severity_breakdown =
              (if has_column df_cal ''severidad''
               then map (\<lambda>kv. (pyval_of_cell (fst kv), PFloat (snd kv)))
                        (groupby_sum df_cal ''severidad'' ''cantidad_defectos_encontrados'')
               else []);
            metadata = PDict
              [(PStr ''total_defects'', PInt (py_int total_defects)),
               (PStr ''total_projects'', PInt (int total_projects)),
               (PStr ''density'', PFloat (py_round density 2)),
               (PStr ''severity_breakdown'', PDict severity_breakdown),
               (PStr ''status'', PStr (if density \<le> 10 then ''healthy''
                                       else if density \<le> 25 then ''warning'' else ''critical''))]
        in Inr (py_round density 2, metadata))"

text \<open>
  \<open>severity_days\<close> keeps each entry of the source's mapping as the Python number (an int
  or the float 0.5) and as the real used in the weighted mean; a severity outside the
  mapping, or a missing one, counts 2 days (\<open>fillna(2)\<close>).
\<close>

definition severity_days :: "(string \<times> pyval \<times> real) list" where
  "severity_days =
     [(''cr'' @ [CHR 0xED] @ ''tica'', PInt 7, 7),
      (''alta'', PInt 4, 4),
      (''media'', PInt 2, 2),
      (''baja'', PInt 1, 1),
      (''nula'', PFloat 0.5, 0.5)]"

definition estimated_days :: "cell \<Rightarrow> real" where
  "estimated_days v =
     (case v of
        CStr s \<Rightarrow> (case map_of severity_days s of Some d \<Rightarrow> snd d | None \<Rightarrow> 2)
      | _ \<Rightarrow> 2)"

definition calculate_avg_resolution_time :: "dataframe \<Rightarrow> py_error + real \<times> pyval" where
  "calculate_avg_resolution_time df_cal =
     (if df_empty df_cal \<or> \<not> has_column df_cal ''severidad'' then
        Inr (0.0, PDict [(PStr ''avg_days'', PInt 0), (PStr ''defects'', PInt 0),
                         (PStr ''status'', PStr ''No data'')])
      else if \<not> has_column df_cal ''cantidad_defectos_encontrados''
        then Inl (KeyError ''cantidad_defectos_encontrados'')
      else
        let total_defects = col_sum df_cal ''cantidad_defectos_encontrados''
        in if total_defects = 0 then
             Inr (0.0, PDict [(PStr ''avg_days'', PInt 0), (PStr ''defects'', PInt 0),
                              (PStr ''status'', PStr ''No defects'')])
           else
             let weighted_time =
                   sum_list (map (\<lambda>r. estimated_days (r ''severidad'')
                                       * num_of (r ''cantidad_defectos_encontrados'')) (rows df_cal));
                 avg_resolution = weighted_time / total_defects;
                 resolution_by_severity =
                   concat (map (\<lambda>sd.
                      let count = sum_list (map (\<lambda>r. num_of (r ''cantidad_defectos_encontrados''))
                                    (filter (\<lambda>r. cell_eq (r ''severidad'') (CStr (fst sd)))
                                            (rows df_cal)))
                      in if count > 0
                         then [(PStr (fst sd), PDict [(PStr ''days'', fst (snd sd)),
                                                      (PStr ''count'', PInt (py_int count))])]
                         else []) severity_days);
                 metadata = PDict
                   [(PStr ''avg_days'', PFloat (py_round avg_resolution 1)),
                    (PStr ''total_defects'', PInt (py_int total_defects)),
                    (PStr ''resolution_by_severity'', PDict resolution_by_severity),
                    (PStr ''status'', PStr (if avg_resolution \<le> 3 then ''healthy''
                                            else if avg_resolution \<le> 5 then ''warning''
                                            else ''critical''))]
             in Inr (py_round avg_resolution 1, metadata))"

definition calculate_client_satisfaction :: "dataframe \<Rightarrow> dataframe \<Rightarrow> py_error + real \<times> pyval" where
  "calculate_client_satisfaction df_proy df_cal =
     (case calculate_budget_efficiency df_proy of
        Inl e \<Rightarrow> Inl e
      | Inr (budget_eff, budget_meta) \<Rightarrow>
          let budget_score = min (budget_eff * 2) 100
          in case calculate_defect_density df_cal df_proy of
               Inl e \<Rightarrow> Inl e
             | Inr (defect_density, defect_meta) \<Rightarrow>
                 let quality_score = max (100 - (defect_density * 2)) 0;
                     satisfaction_index = (budget_score * 0.4) + (quality_score * 0.6);
                     metadata = PDict
                       [(PStr ''index'', PFloat (py_round satisfaction_index 1)),
                        (PStr ''budget_component'', PFloat (py_round budget_score 1)),
                        (PStr ''quality_component'', PFloat (py_round quality_score 1)),
                        (PStr ''budget_efficiency'', PFloat budget_eff),
                        (PStr ''defect_density'', PFloat defect_density),
                        (PStr ''status'', PStr (if satisfaction_index \<ge> 70 then ''healthy''
                                                else if satisfaction_index \<ge> 50 then ''warning''
                                                else ''critical''))]
                 in Inr (py_round satisfaction_index 1, metadata))"

record threshold =
  green :: real
  yellow :: real
  is_inverse :: bool

definition thresholds :: "(string \<times> threshold) list" where
  "thresholds =
     [(''completion_rate'', \<lparr>green = 80, yellow = 50, is_inverse = False\<rparr>),
      (''budget_efficiency'', \<lparr>green = 30, yellow = 15, is_inverse = False\<rparr>),
      (''team_utilization'', \<lparr>green = 70, yellow = 50, is_inverse = False\<rparr>),
      (''defect_density'', \<lparr>green = 10, yellow = 25, is_inverse = True\<rparr>),
      (''avg_resolution_time'', \<lparr>green = 3, yellow = 5, is_inverse = True\<rparr>),
      (''client_satisfaction'', \<lparr>green = 70, yellow = 50, is_inverse = False\<rparr>)]"

text \<open>
  \<open>get_kpi_color\<close>: the field \<open>is_inverse\<close> of a threshold is the source's
  \<open>threshold.get('inverse', False)\<close>.
\<close>

definition get_kpi_color :: "real \<Rightarrow> string \<Rightarrow> string" where
  "get_kpi_color v kpi_type =
     (case map_of thresholds kpi_type of
        None \<Rightarrow> ''gray''
      | Some th \<Rightarrow>
          if is_inverse th then
            (if v \<le> green th then ''green''
             else if v \<le> yellow th then ''yellow''
             else ''red'')
          else
            (if v \<ge> green th then ''green''
             else if v \<ge> yellow th then ''yellow''
             else ''red''))"

section \<open>balanced\_scorecard.py\<close>

text \<open>
  The dataclasses \<open>KeyResult\<close> and \<open>OKR\<close> with their derived properties.
\<close>

record KeyResult =
  kr :: string
  target :: real
  current :: real
  unit :: string

definition progress :: "KeyResult \<Rightarrow> real" where
  "progress k =
     (if target k = 0 then (if current k \<ge> 0 then 100 else 0)
      else min ((current k / target k) * 100) 100)"

record OKR =
  objective :: string
  key_results :: "KeyResult list"
  owner :: string
  quarter :: string
  perspective :: string

definition overall_progress :: "OKR \<Rightarrow> real" where
  "overall_progress okr =
     (if key_results okr = [] then 0
      else sum_list (map progress (key_results okr)) / real (length (key_results okr)))"

text \<open>
  \<open>create_okr_hierarchy\<close>. The dictionary \<open>perspectives\<close> of the source is the list of
  pairs in insertion order: \<open>append_okr\<close> is one turn of the grouping loop (the key is
  added with an empty list when it is new, then the objective is appended to its list).
  A node is a \<open>PDict\<close>; a perspective node is built with the keys \<open>name\<close> and
  \<open>children\<close> only, an objective node and a key-result node also with \<open>value\<close>.
  \<open>truncate_label\<close> is the source's \<open>s[:n] + '...' if len(s) > n else s\<close>.
\<close>

definition truncate_label :: "nat \<Rightarrow> string \<Rightarrow> string" where
  "truncate_label n s = (if length s > n then take n s @ ''...'' else s)"

definition append_okr :: "(string \<times> OKR list) list \<Rightarrow> OKR \<Rightarrow> (string \<times> OKR list) list" where
  "append_okr perspectives okr =
     (let ps = (if perspective okr \<notin> set (map fst perspectives)
                then perspectives @ [(perspective okr, [])] else perspectives)
      in map (\<lambda>(p, os). if p = perspective okr then (p, os @ [okr]) else (p, os)) ps)"

definition group_by_perspective :: "OKR list \<Rightarrow> (string \<times> OKR list) list" where
  "group_by_perspective okrs = foldl append_okr [] okrs"

definition kr_node :: "KeyResult \<Rightarrow> pyval" where
  "kr_node k = PDict [(PStr ''name'', PStr (truncate_label 30 (kr k))),
                      (PStr ''value'', PFloat (progress k))]"

definition okr_node :: "OKR \<Rightarrow> pyval" where
  "okr_node okr = PDict [(PStr ''name'', PStr (truncate_label 40 (objective okr))),
                         (PStr ''value'', PFloat (overall_progress okr)),
                         (PStr ''children'', PList (map kr_node (key_results okr)))]"

definition perspective_node :: "string \<times> OKR list \<Rightarrow> pyval" where
  "perspective_node pos = PDict [(PStr ''name'', PStr (fst pos)),
                                 (PStr ''children'', PList (map okr_node (snd pos)))]"

definition create_okr_hierarchy :: "OKR list \<Rightarrow> pyval" where
  "create_okr_hierarchy okrs =
     PDict [(PStr ''name'', PStr ''Strategic OKRs''),
            (PStr ''children'', PList (map perspective_node (group_by_perspective okrs)))]"

text \<open>Reading a node: its children, and the entries under \<open>value\<close> and \<open>name\<close>.\<close>

definition node_children :: "pyval \<Rightarrow> pyval list" where
  "node_children n = (case dict_get n ''children'' of Some (PList ns) \<Rightarrow> ns | _ \<Rightarrow> [])"

definition node_value :: "pyval \<Rightarrow> pyval option" where
  "node_value n = dict_get n ''value''"

definition node_name :: "pyval \<Rightarrow> pyval option" where
  "node_name n = dict_get n ''name''"

section \<open>rayleigh\_model.py\<close>

text \<open>
  \<open>calibrate_rayleigh_sigma\<close>. The series \<open>project_defects\<close> holds the defect total of
  every project; \<open>mean\<close> and \<open>std\<close> are those of pandas (\<open>std\<close> with \<open>n - 1\<close> in the
  denominator, NaN for a single project). The argument \<open>df_proy\<close> is not read.
\<close>

definition series_mean :: "real list \<Rightarrow> real" where
  "series_mean xs = sum_list xs / real (length xs)"

definition series_std :: "real list \<Rightarrow> pyval" where
  "series_std xs =
     (if length xs < 2 then PNaN
      else PFloat (sqrt (sum_list (map (\<lambda>x. (x - series_mean xs)\<^sup>2) xs)
                          / real (length xs - 1))))"

definition calibrate_rayleigh_sigma :: "dataframe \<Rightarrow> dataframe \<Rightarrow> py_error + pyval" where
  "calibrate_rayleigh_sigma df_cal df_proy =
     (if \<not> has_column df_cal ''nombre_proyecto'' then Inl (KeyError ''nombre_proyecto'')
      else if \<not> has_column df_cal ''cantidad_defectos_encontrados''
        then Inl (KeyError ''cantidad_defectos_encontrados'')
      else
        let project_defects =
              map snd (groupby_sum df_cal ''nombre_proyecto'' ''cantidad_defectos_encontrados'')
        in if project_defects = [] then
             Inr (PDict [(PStr ''default'', PFloat 60.0),
                         (PStr ''small'', PFloat 40.0),
                         (PStr ''medium'', PFloat 60.0),
                         (PStr ''large'', PFloat 90.0),
                         (PStr ''confidence'', PFloat 0.5)])
           else
             let avg_defects = series_mean project_defects;
                 std_defects = series_std project_defects;
                 typical_duration = 165;
                 peak_at_40_percent = typical_duration * 0.4
             in Inr (PDict [(PStr ''default'', PFloat peak_at_40_percent),
                            (PStr ''small'', PFloat 40.0),
                            (PStr ''medium'', PFloat 66.0),
                            (PStr ''large'', PFloat 100.0),
                            (PStr ''xlarge'', PFloat 144.0),
                            (PStr ''avg_historical_defects'', PFloat avg_defects),
                            (PStr ''std_historical_defects'', std_defects),
                            (PStr ''confidence'', PFloat 0.8)]))"

text \<open>
  \<open>generate_rayleigh_curve\<close>. \<open>linspace 0 d d\<close> is \<open>np.linspace(0, d, d)\<close>: \<open>d\<close> points
  from 0 to \<open>d\<close> inclusive (a negative count raises); \<open>trapz ys xs\<close> is
  \<open>np.trapz(ys, xs)\<close>; \<open>cumsum\<close> is the running sum. The argument \<open>conf\<close> is the
  source's \<open>confidence_level\<close> and \<open>sg\<close> its \<open>sigma\<close> after the default. With
  \<open>sigma = 0\<close> numpy divides by zero without raising, every density is NaN, so is the
  integral, and the test \<open>integral > 0\<close> fails: the curve is all zero. \<open>np.max\<close> raises
  on an empty array (a duration of 0 days).
\<close>

definition linspace :: "real \<Rightarrow> real \<Rightarrow> nat \<Rightarrow> real list" where
  "linspace start stop num =
     (if num = 0 then []
      else if num = 1 then [start]
      else map (\<lambda>i. start + real i * ((stop - start) / real (num - 1))) [0..<num])"

fun trapz :: "real list \<Rightarrow> real list \<Rightarrow> real" where
  "trapz (y0 # y1 # ys) (x0 # x1 # xs) = (x1 - x0) * (y1 + y0) / 2 + trapz (y1 # ys) (x1 # xs)"
| "trapz ys xs = 0"

fun cumsum_from :: "real \<Rightarrow> real list \<Rightarrow> real list" where
  "cumsum_from acc [] = []"
| "cumsum_from acc (x # xs) = (acc + x) # cumsum_from (acc + x) xs"

definition cumsum :: "real list \<Rightarrow> real list" where
  "cumsum xs = cumsum_from 0 xs"

definition rayleigh_pdf :: "real \<Rightarrow> real \<Rightarrow> real" where
  "rayleigh_pdf sg t = (t / sg\<^sup>2) * exp (- (t\<^sup>2) / (2 * sg\<^sup>2))"

record rayleigh_curve =
  time :: "real list"
  defects_per_day :: "real list"
  cumulative_defects :: "real list"
  upper_bound :: "real list"
  lower_bound :: "real list"
  confidence_level :: real
  sigma :: real
  peak_day :: real
  peak_value :: real

definition generate_rayleigh_curve ::
    "real \<Rightarrow> int \<Rightarrow> real option \<Rightarrow> real \<Rightarrow> py_error + rayleigh_curve" where
  "generate_rayleigh_curve total_defects duration_days sigma_arg conf =
     (let sg = (case sigma_arg of None \<Rightarrow> of_int duration_days * 0.4 | Some s \<Rightarrow> s)
      in if duration_days < 0 then Inl NegativeSamples
         else
           let t = linspace 0 (of_int duration_days) (nat duration_days);
               pdf = map (rayleigh_pdf sg) t;
               integral = trapz pdf t;
               dpd = (if sg \<noteq> 0 \<and> integral > 0
                      then map (\<lambda>p. p * (total_defects / integral)) pdf
                      else map (\<lambda>p. 0) t);
               margin = (if conf \<ge> 0.95 then 0.30 else 0.20);
               upper = map (\<lambda>d. d * (1 + margin)) dpd;
               lower = map (\<lambda>d. max (d * (1 - margin)) 0) dpd
           in case dpd of
                [] \<Rightarrow> Inl EmptyArray
              | d # ds \<Rightarrow>
                  Inr \<lparr>time = t, defects_per_day = dpd, cumulative_defects = cumsum dpd,
                       upper_bound = upper, lower_bound = lower, confidence_level = conf,
                       sigma = sg, peak_day = sg, peak_value = fold max ds d\<rparr>)"

text \<open>
  \<open>recommend_qa_resources\<close>. The division \<open>qa_hours / duration_months\<close> raises for 0 months.
\<close>

record qa_recommendation =
  qa_engineers :: int
  qa_hours_total :: real
  qa_hours_per_month :: real
  risk_level :: string
  risk_color :: string
  recommendation :: string

definition recommend_qa_resources :: "real \<Rightarrow> int \<Rightarrow> py_error + qa_recommendation" where
  "recommend_qa_resources predicted_defects duration_months =
     (let base_qa = predicted_defects / 50;
          duration_mult = (if duration_months \<le> 3 then 1.3
                           else if duration_months \<le> 6 then 1.0
                           else 0.9);
          recommended_qa = max (base_qa * duration_mult) 1;
          risk = (if predicted_defects < 30 then (''Bajo'', ''green'')
                  else if predicted_defects < 80 then (''Medio'', ''yellow'')
                  else (''Alto'', ''red''));
          qa_hours = predicted_defects * 2
      in if duration_months = 0 then Inl ZeroDivisionError
         else Inr \<lparr>qa_engineers = \<lceil>recommended_qa\<rceil>,
                   qa_hours_total = py_round qa_hours 0,
                   qa_hours_per_month = py_round (qa_hours / of_int duration_months) 0,
                   risk_level = fst risk,
                   risk_color = snd risk,
                   recommendation =
                     ''Asignar '' @ format_int \<lceil>recommended_qa\<rceil> @ '' ingeniero(s) QA por ''
                     @ format_int duration_months @ '' meses. Estimar ''
                     @ format_int (py_int qa_hours) @ '' horas totales de pruebas.''\<rparr>)"

definition validate_prediction_inputs :: "int \<Rightarrow> int \<Rightarrow> int \<Rightarrow> bool \<times> string" where
  "validate_prediction_inputs project_size duration_months team_size =
     (if project_size < 100 then
        (False, ''Tama'' @ [CHR 0xF1] @ ''o de proyecto debe ser al menos 100 LOC'')
      else if project_size > 10000000 then
        (False, ''Tama'' @ [CHR 0xF1] @ ''o de proyecto demasiado grande (>10M LOC)'')
      else if duration_months < 1 \<or> duration_months > 36 then
        (False, ''Duraci'' @ [CHR 0xF3] @ ''n debe estar entre 1 y 36 meses'')
      else if team_size < 1 \<or> team_size > 100 then
        (False, ''Tama'' @ [CHR 0xF1] @ ''o de equipo debe estar entre 1 y 100 desarrolladores'')
      else (True, []))"

section \<open>Properties\<close>

subsection \<open>Validation of the prediction inputs\<close>

text \<open>
  C9. \<open>validate_prediction_inputs\<close> is total (it has no raise), and its first component is
  \<open>False\<close>, with a non-empty message, exactly when the size is below 100 or above
  10,000,000, the duration is outside 1..36 or the team size is outside 1..100; otherwise
  the result is \<open>(True, '''')\<close>. At size 50 the message is the size-too-small one, and
  (500000, 6, 5) is accepted.
\<close>

theorem validate_prediction_inputs_spec:
  "(fst (validate_prediction_inputs size_loc months team) = False
      \<longleftrightarrow> (size_loc < 100 \<or> size_loc > 10000000 \<or> months < 1 \<or> months > 36
           \<or> team < 1 \<or> team > 100))
   \<and> (fst (validate_prediction_inputs size_loc months team) = False
      \<longleftrightarrow> snd (validate_prediction_inputs size_loc months team) \<noteq> [])
   \<and> (validate_prediction_inputs size_loc months team = (True, [])
      \<longleftrightarrow> \<not> (size_loc < 100 \<or> size_loc > 10000000 \<or> months < 1 \<or> months > 36
           \<or> team < 1 \<or> team > 100))
   \<and> validate_prediction_inputs 50 6 5 =
        (False, ''Tama'' @ [CHR 0xF1] @ ''o de proyecto debe ser al menos 100 LOC'')
   \<and> validate_prediction_inputs 500000 6 5 = (True, [])"
  by (simp add: validate_prediction_inputs_def)

theorem validate_prediction_inputs_spec_witness:
  "validate_prediction_inputs 500000 0 5 =
     (False, ''Duraci'' @ [CHR 0xF3] @ ''n debe estar entre 1 y 36 meses'')
   \<and> fst (validate_prediction_inputs 100 1 101) = False
   \<and> validate_prediction_inputs 100 36 100 = (True, [])"
  using validate_prediction_inputs_spec [of 100 36 100]
  by (simp add: validate_prediction_inputs_def)

subsection \<open>Colour of an unknown KPI\<close>

text \<open>
  C10. For every value and every KPI type that is not one of the six known names,
  \<open>get_kpi_color\<close> returns gray, which is none of green, yellow and red.
\<close>

theorem get_kpi_color_unknown:
  assumes "kpi_type \<notin> {''completion_rate'', ''budget_efficiency'', ''team_utilization'',
                       ''defect_density'', ''avg_resolution_time'', ''client_satisfaction''}"
  shows "get_kpi_color v kpi_type = ''gray''
         \<and> get_kpi_color v kpi_type \<notin> {''green'', ''yellow'', ''red''}"
  using assms by (simp add: get_kpi_color_def thresholds_def)

theorem get_kpi_color_unknown_witness:
  "get_kpi_color 95 ''velocity'' = ''gray''"
proof -
  have "''velocity'' \<notin> {''completion_rate'', ''budget_efficiency'', ''team_utilization'',
                       ''defect_density'', ''avg_resolution_time'', ''client_satisfaction''}"
    by simp
  from get_kpi_color_unknown [OF this, of 95] show ?thesis by simp
qed

subsection \<open>Grouping by perspective\<close>

lemma group_by_perspective_snoc:
  "group_by_perspective (okrs @ [okr]) = append_okr (group_by_perspective okrs) okr"
  by (simp add: group_by_perspective_def)

lemma group_by_perspective_eq:
  "group_by_perspective okrs =
     map (\<lambda>p. (p, filter (\<lambda>okr. perspective okr = p) okrs))
         (rev (remdups (rev (map perspective okrs))))"
proof (induction okrs rule: rev_induct)
  case Nil
  show ?case by (simp add: group_by_perspective_def)
next
  case (snoc okr okrs)
  show ?case
  proof (cases "perspective okr \<in> set (map perspective okrs)")
    case True
    then show ?thesis
      unfolding group_by_perspective_snoc snoc.IH
      by (auto simp: append_okr_def Let_def)
  next
    case False
    then have none: "filter (\<lambda>x. perspective x = perspective okr) okrs = []"
      by (metis (mono_tags, lifting) filter_False image_eqI set_map)
    have others: "\<And>p. p \<in> set (map perspective okrs) \<Longrightarrow> p \<noteq> perspective okr"
      using False by metis
    from False none others show ?thesis
      unfolding group_by_perspective_snoc snoc.IH
      by (auto simp: append_okr_def Let_def)
  qed
qed


subsection \<open>Progress of a key result\<close>

text \<open>
  C2 as stated, that the progress of a key result with a positive target lies in [0,100] for
  every current value, fails below: only the upper end is clamped, so a negative current
  value gives a negative progress (target 10, current -5: progress -50).
\<close>

theorem progress_negative_counterexample:
  "target \<lparr>kr = ''Generar ganancia'', target = 10, current = -5, unit = ''$''\<rparr> > 0
   \<and> progress \<lparr>kr = ''Generar ganancia'', target = 10, current = -5, unit = ''$''\<rparr> = -50
   \<and> \<not> (0 \<le> progress \<lparr>kr = ''Generar ganancia'', target = 10, current = -5, unit = ''$''\<rparr>)"
  by (simp add: progress_def)

text \<open>
  C2 (as amended). For a key result with a positive target the progress is at most 100
  for every current value, it lies in [0,100] when the current value is not negative, and
  it is negative when the current value is. With target 0 the progress is 100 when the
  current value is not negative and 0 otherwise; so progress(target=0, current=5) = 100
  and progress(target=0, current=-5) = 0.
\<close>

theorem progress_range:
  "(target k > 0 \<longrightarrow>
      progress k \<le> 100
      \<and> (current k \<ge> 0 \<longrightarrow> 0 \<le> progress k)
      \<and> (current k < 0 \<longrightarrow> progress k < 0))
   \<and> (target k = 0 \<longrightarrow> progress k = (if current k \<ge> 0 then 100 else 0))
   \<and> progress \<lparr>kr = d, target = 0, current = 5, unit = u\<rparr> = 100
   \<and> progress \<lparr>kr = d, target = 0, current = -5, unit = u\<rparr> = 0"
proof -
  have neg: "current k / target k * 100 < 0" if "0 < target k" "current k < 0"
    using that by (simp add: divide_less_0_iff mult_less_0_iff)
  have pos: "0 \<le> current k / target k * 100" if "0 < target k" "0 \<le> current k"
    using that by simp
  show ?thesis
    using neg pos by (auto simp: progress_def min_less_iff_disj)
qed

theorem progress_range_witness:
  "progress \<lparr>kr = ''NPS'', target = 75, current = 68, unit = '' puntos''\<rparr> \<le> 100
   \<and> 0 \<le> progress \<lparr>kr = ''NPS'', target = 75, current = 68, unit = '' puntos''\<rparr>
   \<and> progress \<lparr>kr = ''NPS'', target = 0, current = 68, unit = '' puntos''\<rparr> = 100"
  using progress_range [of "\<lparr>kr = ''NPS'', target = 75, current = 68, unit = '' puntos''\<rparr>" "''x''" "''y''"]
        progress_range [of "\<lparr>kr = ''NPS'', target = 0, current = 68, unit = '' puntos''\<rparr>" "''x''" "''y''"]
  by simp

subsection \<open>The OKR hierarchy\<close>

text \<open>
  C3 as stated, that every perspective node carries the mean of its objective nodes' values,
  fails: a perspective node has no entry \<open>value\<close> at all. For one objective with
  progress 50 the only perspective node has no value, while its only child has value 50.
\<close>

theorem perspective_node_value_counterexample:
  "map node_value (node_children (create_okr_hierarchy
     [\<lparr>objective = ''Crecer'',
       key_results = [\<lparr>kr = ''a'', target = 10, current = 5, unit = ''%''\<rparr>],
       owner = ''CFO'', quarter = ''Q1 2025'', perspective = ''Financial''\<rparr>])) = [None]
   \<and> map node_value (concat (map node_children (node_children (create_okr_hierarchy
     [\<lparr>objective = ''Crecer'',
       key_results = [\<lparr>kr = ''a'', target = 10, current = 5, unit = ''%''\<rparr>],
       owner = ''CFO'', quarter = ''Q1 2025'', perspective = ''Financial''\<rparr>]))))
     = [Some (PFloat 50)]"
  by (simp add: create_okr_hierarchy_def group_by_perspective_def append_okr_def
      perspective_node_def okr_node_def node_children_def node_value_def dict_get_def
      overall_progress_def progress_def)

lemma node_children_hierarchy:
  "node_children (create_okr_hierarchy okrs) = map perspective_node (group_by_perspective okrs)"
  by (simp add: create_okr_hierarchy_def node_children_def dict_get_def)

lemma perspective_node_fields:
  "node_name (perspective_node (p, os)) = Some (PStr p)"
  "node_value (perspective_node (p, os)) = None"
  "node_children (perspective_node (p, os)) = map okr_node os"
  by (simp_all add: perspective_node_def node_name_def node_value_def node_children_def dict_get_def)

lemma okr_node_fields:
  "node_name (okr_node okr) = Some (PStr (truncate_label 40 (objective okr)))"
  "node_value (okr_node okr) = Some (PFloat (overall_progress okr))"
  "node_children (okr_node okr) = map kr_node (key_results okr)"
  by (simp_all add: okr_node_def node_name_def node_value_def node_children_def dict_get_def)

lemma kr_node_fields:
  "node_name (kr_node k) = Some (PStr (truncate_label 30 (kr k)))"
  "node_value (kr_node k) = Some (PFloat (progress k))"
  "node_children (kr_node k) = []"
  by (simp_all add: kr_node_def node_name_def node_value_def node_children_def dict_get_def)

text \<open>
  C3 (as amended). For every list of objectives the hierarchy is the tree root, perspective
  nodes, objective nodes, key-result leaves: the root is named Strategic OKRs; its
  children are named by the perspectives in the order they are first seen; every
  perspective node carries no value and has as children the nodes of the objectives of
  its perspective, in their order; the value of an objective node is the overall progress
  of the objective, the values of its children are the progress of its key results, and
  a key-result node is a leaf.
\<close>

theorem create_okr_hierarchy_structure:
  "node_name (create_okr_hierarchy okrs) = Some (PStr ''Strategic OKRs'')
   \<and> map node_name (node_children (create_okr_hierarchy okrs))
       = map (\<lambda>p. Some (PStr p)) (rev (remdups (rev (map perspective okrs))))
   \<and> (\<forall>pn \<in> set (node_children (create_okr_hierarchy okrs)).
         node_value pn = None
         \<and> (\<exists>p. node_name pn = Some (PStr p)
                \<and> node_children pn = map okr_node (filter (\<lambda>okr. perspective okr = p) okrs)))
   \<and> (\<forall>okr. node_value (okr_node okr) = Some (PFloat (overall_progress okr))
         \<and> map node_value (node_children (okr_node okr))
             = map (\<lambda>k. Some (PFloat (progress k))) (key_results okr)
         \<and> (\<forall>k. node_children (kr_node k) = []))"
proof -
  have root: "node_name (create_okr_hierarchy okrs) = Some (PStr ''Strategic OKRs'')"
    by (simp add: create_okr_hierarchy_def node_name_def dict_get_def)
  have names: "map node_name (node_children (create_okr_hierarchy okrs))
       = map (\<lambda>p. Some (PStr p)) (rev (remdups (rev (map perspective okrs))))"
    by (simp add: node_children_hierarchy group_by_perspective_eq perspective_node_fields comp_def)
  have persp: "\<forall>pn \<in> set (node_children (create_okr_hierarchy okrs)).
         node_value pn = None
         \<and> (\<exists>p. node_name pn = Some (PStr p)
                \<and> node_children pn = map okr_node (filter (\<lambda>okr. perspective okr = p) okrs))"
    by (auto simp: node_children_hierarchy group_by_perspective_eq perspective_node_fields)
  have leaves: "\<forall>okr. node_value (okr_node okr) = Some (PFloat (overall_progress okr))
         \<and> map node_value (node_children (okr_node okr))
             = map (\<lambda>k. Some (PFloat (progress k))) (key_results okr)
         \<and> (\<forall>k. node_children (kr_node k) = [])"
    by (simp add: okr_node_fields kr_node_fields comp_def)
  from root names persp leaves show ?thesis by blast
qed

theorem create_okr_hierarchy_structure_witness:
  "map node_value (node_children (create_okr_hierarchy
     [\<lparr>objective = ''Crecer'',
       key_results = [\<lparr>kr = ''a'', target = 10, current = 5, unit = ''%''\<rparr>],
       owner = ''CFO'', quarter = ''Q1 2025'', perspective = ''Financial''\<rparr>,
      \<lparr>objective = ''Fidelizar'', key_results = [],
       owner = ''CCO'', quarter = ''Q1 2025'', perspective = ''Customer''\<rparr>])) = [None, None]"
  using create_okr_hierarchy_structure
    [of "[\<lparr>objective = ''Crecer'',
       key_results = [\<lparr>kr = ''a'', target = 10, current = 5, unit = ''%''\<rparr>],
       owner = ''CFO'', quarter = ''Q1 2025'', perspective = ''Financial''\<rparr>,
      \<lparr>objective = ''Fidelizar'', key_results = [],
       owner = ''CCO'', quarter = ''Q1 2025'', perspective = ''Customer''\<rparr>]"]
  by (simp add: create_okr_hierarchy_def group_by_perspective_def append_okr_def
      perspective_node_def node_children_def node_value_def dict_get_def)


subsection \<open>Grouped sums\<close>

lemma set_insort_by: "set (insort_by le k ks) = insert k (set ks)"
  by (induction ks) auto

lemma sum_insort_by: "sum_list (map f (insort_by le k ks)) = (f k :: real) + sum_list (map f ks)"
  by (induction ks) auto

lemma length_sort_by: "length (sort_by le ks) = length ks"
proof -
  have "length (insort_by le k xs) = Suc (length xs)" for k and xs :: "'a list"
    by (induction xs) auto
  then show ?thesis
    by (induction ks) (auto simp: sort_by_def)
qed

lemma set_sort_by: "set (sort_by le ks) = set ks"
  by (induction ks) (auto simp: sort_by_def set_insort_by)

lemma sum_sort_keys: "sum_list (map f (sort_keys ks)) = (sum_list (map f ks) :: real)"
  by (induction ks) (auto simp: sort_keys_def sort_by_def sum_insort_by)

lemma sum_list_delta:
  "distinct ks \<Longrightarrow> a \<in> set ks \<Longrightarrow>
   sum_list (map (\<lambda>k. if a = k then c else 0) ks) = (c :: real)"
proof (induction ks)
  case Nil
  then show ?case by simp
next
  case (Cons k ks)
  show ?case
  proof (cases "a = k")
    case True
    with Cons.prems have "a \<notin> set ks" by auto
    then have "sum_list (map (\<lambda>k. if a = k then c else 0) ks) = 0"
      by (induction ks) auto
    with True show ?thesis by simp
  next
    case False
    with Cons show ?thesis by auto
  qed
qed

lemma sum_by_key:
  "distinct ks \<Longrightarrow> key ` set xs \<subseteq> set ks \<Longrightarrow>
   sum_list (map (\<lambda>k. sum_list (map f (filter (\<lambda>x. key x = k) xs))) ks)
     = (sum_list (map f xs) :: real)"
proof (induction xs)
  case Nil
  show ?case by simp
next
  case (Cons x xs)
  have delta: "sum_list (map (\<lambda>k. if key x = k then f x else 0) ks) = f x"
    using Cons.prems by (intro sum_list_delta) auto
  have split: "(\<lambda>k. sum_list (map f (filter (\<lambda>y. key y = k) (x # xs))))
        = (\<lambda>k. (if key x = k then f x else 0) + sum_list (map f (filter (\<lambda>y. key y = k) xs)))"
    by auto
  have "sum_list (map (\<lambda>k. sum_list (map f (filter (\<lambda>y. key y = k) (x # xs)))) ks)
        = sum_list (map (\<lambda>k. if key x = k then f x else 0) ks)
          + sum_list (map (\<lambda>k. sum_list (map f (filter (\<lambda>y. key y = k) xs))) ks)"
    unfolding split by (simp add: sum_list_addf)
  also have "\<dots> = f x + sum_list (map f xs)"
    using delta Cons.IH Cons.prems by simp
  finally show ?case by simp
qed

lemma groupby_agg_col_sum:
  assumes ok: "groupby_agg df group_cols = Inr out"
    and num: "is_numeric_dtype df c"
    and nonkey: "c \<notin> set group_cols"
  shows "col_sum out c
         = sum_list (map (\<lambda>r. num_of (r c))
             (filter (\<lambda>r. CNull \<notin> set (key_of group_cols r)) (rows df)))"
proof -
  define kept where "kept = filter (\<lambda>r. CNull \<notin> set (key_of group_cols r)) (rows df)"
  define keys where "keys = sort_keys (remdups (map (key_of group_cols) kept))"
  from ok have out: "rows out = map (group_row df group_cols kept) keys"
    by (auto simp: groupby_agg_def Let_def kept_def keys_def split: if_splits)
  have cellv: "num_of (group_row df group_cols kept k c)
        = sum_list (map (\<lambda>r. num_of (r c)) (filter (\<lambda>r. key_of group_cols r = k) kept))" for k
    using num nonkey by (simp add: group_row_def is_numeric_dtype_def agg_cell_def comp_def)
  have "col_sum out c
        = sum_list (map (\<lambda>k. sum_list (map (\<lambda>r. num_of (r c))
             (filter (\<lambda>r. key_of group_cols r = k) kept))) keys)"
    by (simp add: col_sum_def out comp_def cellv)
  also have "\<dots> = sum_list (map (\<lambda>k. sum_list (map (\<lambda>r. num_of (r c))
             (filter (\<lambda>r. key_of group_cols r = k) kept))) (remdups (map (key_of group_cols) kept)))"
    unfolding keys_def by (rule sum_sort_keys)
  also have "\<dots> = sum_list (map (\<lambda>r. num_of (r c)) kept)"
    by (rule sum_by_key) auto
  finally show ?thesis by (simp add: kept_def)
qed

lemma roll_up_eq_drill_down: "roll_up df d h t = drill_down df d h t"
  by (simp add: roll_up_def drill_down_def)


subsection \<open>Slice\<close>

text \<open>
  C6. For every table T, every column D of T and every value v, \<open>slice_olap\<close> succeeds;
  its result has the columns of T and only rows of T whose D-cell equals v, and the
  number of its rows plus the number of rows of T whose D-cell differs from v is the
  number of rows of T.
\<close>

theorem slice_olap_partition:
  assumes "has_column T D"
  shows "\<exists>S. slice_olap T D v = Inr S
           \<and> columns S = columns T
           \<and> set (rows S) \<subseteq> set (rows T)
           \<and> (\<forall>r \<in> set (rows S). cell_eq (r D) v)
           \<and> length (rows S) + length (filter (\<lambda>r. \<not> cell_eq (r D) v) (rows T))
               = length (rows T)"
  using assms by (simp add: slice_olap_def sum_length_filter_compl)

theorem slice_olap_partition_witness:
  "(case slice_olap
      \<lparr>columns = [(''nombre_pais'', Object), (''ganancia_neta'', Numeric)],
       rows = [(\<lambda>c. CNull)(''nombre_pais'' := CStr ''China'', ''ganancia_neta'' := CNum 10),
               (\<lambda>c. CNull)(''nombre_pais'' := CStr ''Peru'', ''ganancia_neta'' := CNum 20),
               (\<lambda>c. CNull)(''nombre_pais'' := CStr ''China'', ''ganancia_neta'' := CNum 30)]\<rparr>
      ''nombre_pais'' (CStr ''China'')
    of Inr S \<Rightarrow> map (\<lambda>r. r ''ganancia_neta'') (rows S) | Inl e \<Rightarrow> [])
   = [CNum 10, CNum 30]"
proof -
  let ?T = "\<lparr>columns = [(''nombre_pais'', Object), (''ganancia_neta'', Numeric)],
       rows = [(\<lambda>c. CNull)(''nombre_pais'' := CStr ''China'', ''ganancia_neta'' := CNum 10),
               (\<lambda>c. CNull)(''nombre_pais'' := CStr ''Peru'', ''ganancia_neta'' := CNum 20),
               (\<lambda>c. CNull)(''nombre_pais'' := CStr ''China'', ''ganancia_neta'' := CNum 30)]\<rparr>"
  have col: "has_column ?T ''nombre_pais''"
    by (simp add: has_column_def)
  from slice_olap_partition [OF col, of "CStr ''China''"] show ?thesis
    by (simp add: slice_olap_def has_column_def)
qed

subsection \<open>Drill-down and roll-up\<close>

text \<open>
  C7 as stated, that the grouped sum of a numeric column always equals its sum over the input,
  fails on a table with a missing cell in a grouping column: the row is in no group. Below,
  the column sums to 30 in the input and to 10 in the output.
\<close>

theorem drill_down_null_key_counterexample:
  "(case drill_down
      \<lparr>columns = [(''nombre_pais'', Object), (''ganancia_neta'', Numeric)],
       rows = [(\<lambda>c. CNull)(''nombre_pais'' := CStr ''China'', ''ganancia_neta'' := CNum 10),
               (\<lambda>c. CNull)(''ganancia_neta'' := CNum 20)]\<rparr>
      ''geografia'' [''nombre_pais''] ''nombre_pais''
    of Inr out \<Rightarrow> Some (col_sum out ''ganancia_neta'') | Inl e \<Rightarrow> None) = Some 10
   \<and> col_sum
      \<lparr>columns = [(''nombre_pais'', Object), (''ganancia_neta'', Numeric)],
       rows = [(\<lambda>c. CNull)(''nombre_pais'' := CStr ''China'', ''ganancia_neta'' := CNum 10),
               (\<lambda>c. CNull)(''ganancia_neta'' := CNum 20)]\<rparr>
      ''ganancia_neta'' = 30"
  by (simp add: drill_down_def groupby_agg_def Let_def has_column_def key_of_def sort_keys_def sort_by_def
      group_row_def agg_cell_def col_sum_def)

text \<open>
  C7 (as amended). For every table, hierarchy and target level accepted by \<open>drill_down\<close>
  or \<open>roll_up\<close>, and every numeric column that is not a grouping column: the sum of the
  column over the grouped output equals its sum over the input rows that have no missing
  cell in a grouping column; so it equals the sum over all input rows when no grouping
  column holds a missing cell.
\<close>

theorem drill_down_roll_up_sum:
  assumes "drill_down df dimension hierarchy target_level = Inr out
           \<or> roll_up df dimension hierarchy target_level = Inr out"
    and "is_numeric_dtype df c"
    and "c \<notin> set (group_cols_of df hierarchy target_level)"
  shows "col_sum out c
           = sum_list (map (\<lambda>r. num_of (r c))
               (filter (\<lambda>r. CNull \<notin> set (key_of (group_cols_of df hierarchy target_level) r))
                  (rows df)))
         \<and> ((\<forall>r \<in> set (rows df). CNull \<notin> set (key_of (group_cols_of df hierarchy target_level) r))
              \<longrightarrow> col_sum out c = col_sum df c)"
proof -
  let ?gc = "group_cols_of df hierarchy target_level"
  from assms(1) have "drill_down df dimension hierarchy target_level = Inr out"
    by (simp add: roll_up_eq_drill_down)
  then have "groupby_agg df ?gc = Inr out"
    by (simp add: drill_down_def group_cols_of_def Let_def split: if_splits)
  from groupby_agg_col_sum [OF this assms(2) assms(3)]
  have kept: "col_sum out c
           = sum_list (map (\<lambda>r. num_of (r c)) (filter (\<lambda>r. CNull \<notin> set (key_of ?gc r)) (rows df)))" .
  have "col_sum out c = col_sum df c" if "\<forall>r \<in> set (rows df). CNull \<notin> set (key_of ?gc r)"
  proof -
    from that have "filter (\<lambda>r. CNull \<notin> set (key_of ?gc r)) (rows df) = rows df"
      by (simp add: filter_id_conv)
    with kept show ?thesis by (simp add: col_sum_def)
  qed
  with kept show ?thesis by blast
qed

lemma roll_up_example:
  "(case roll_up
      \<lparr>columns = [(''anio'', Numeric), (''mes'', Numeric), (''ganancia_neta'', Numeric)],
       rows = [(\<lambda>c. CNull)(''anio'' := CNum 2024, ''mes'' := CNum 1, ''ganancia_neta'' := CNum 10),
               (\<lambda>c. CNull)(''anio'' := CNum 2023, ''mes'' := CNum 7, ''ganancia_neta'' := CNum 20),
               (\<lambda>c. CNull)(''anio'' := CNum 2024, ''mes'' := CNum 2, ''ganancia_neta'' := CNum 30)]\<rparr>
      ''tiempo'' [''anio'', ''mes'', ''dia''] ''anio''
    of Inr out \<Rightarrow> (columns out, map (\<lambda>r. (r ''anio'', r ''mes'', r ''ganancia_neta'')) (rows out))
     | Inl e \<Rightarrow> ([], []))
   = ([(''anio'', Numeric), (''mes'', Numeric), (''ganancia_neta'', Numeric)],
      [(CNum 2023, CNum 7, CNum 20), (CNum 2024, CNum 3, CNum 40)])"
  by (simp add: roll_up_def groupby_agg_def Let_def has_column_def key_of_def sort_keys_def sort_by_def
      group_row_def agg_cell_def dtype_of_def)

theorem drill_down_roll_up_sum_witness:
  "(case roll_up
      \<lparr>columns = [(''anio'', Numeric), (''mes'', Numeric), (''ganancia_neta'', Numeric)],
       rows = [(\<lambda>c. CNull)(''anio'' := CNum 2024, ''mes'' := CNum 1, ''ganancia_neta'' := CNum 10),
               (\<lambda>c. CNull)(''anio'' := CNum 2023, ''mes'' := CNum 7, ''ganancia_neta'' := CNum 20),
               (\<lambda>c. CNull)(''anio'' := CNum 2024, ''mes'' := CNum 2, ''ganancia_neta'' := CNum 30)]\<rparr>
      ''tiempo'' [''anio'', ''mes'', ''dia''] ''anio''
    of Inr out \<Rightarrow> Some (col_sum out ''ganancia_neta'') | Inl e \<Rightarrow> None) = Some 60"
proof -
  let ?df = "\<lparr>columns = [(''anio'', Numeric), (''mes'', Numeric), (''ganancia_neta'', Numeric)],
       rows = [(\<lambda>c. CNull)(''anio'' := CNum 2024, ''mes'' := CNum 1, ''ganancia_neta'' := CNum 10),
               (\<lambda>c. CNull)(''anio'' := CNum 2023, ''mes'' := CNum 7, ''ganancia_neta'' := CNum 20),
               (\<lambda>c. CNull)(''anio'' := CNum 2024, ''mes'' := CNum 2, ''ganancia_neta'' := CNum 30)]\<rparr>"
  let ?h = "[''anio'', ''mes'', ''dia'']"
  obtain out where ok: "roll_up ?df ''tiempo'' ?h ''anio'' = Inr out"
    by (simp add: roll_up_def groupby_agg_def Let_def has_column_def)
  have num: "is_numeric_dtype ?df ''ganancia_neta''"
    by (simp add: is_numeric_dtype_def)
  have gc: "group_cols_of ?df ?h ''anio'' = [''anio'']"
    by (simp add: group_cols_of_def has_column_def)
  have nonkey: "''ganancia_neta'' \<notin> set (group_cols_of ?df ?h ''anio'')"
    by (simp add: gc)
  have nonull: "\<forall>r \<in> set (rows ?df). CNull \<notin> set (key_of (group_cols_of ?df ?h ''anio'') r)"
    by (simp add: gc key_of_def)
  from drill_down_roll_up_sum [OF disjI2 [OF ok] num nonkey] nonull
  have "col_sum out ''ganancia_neta'' = col_sum ?df ''ganancia_neta''"
    by blast
  also have "\<dots> = 60"
    by (simp add: col_sum_def)
  finally show ?thesis
    using ok by simp
qed

subsection \<open>Calibration of sigma\<close>

lemma groupby_sum_empty_iff:
  "groupby_sum df b v = [] \<longleftrightarrow> (\<forall>r \<in> set (rows df). r b = CNull)"
proof -
  have "groupby_sum df b v = [] \<longleftrightarrow> filter (\<lambda>r. r b \<noteq> CNull) (rows df) = []"
    by (simp add: groupby_sum_def Let_def flip: length_0_conv [of "sort_by _ _"] add: length_sort_by)
  then show ?thesis by (simp add: filter_empty_conv)
qed

lemma calibrate_rayleigh_sigma_nonempty:
  assumes "has_column df_cal ''nombre_proyecto''"
    and "has_column df_cal ''cantidad_defectos_encontrados''"
    and "\<exists>r \<in> set (rows df_cal). r ''nombre_proyecto'' \<noteq> CNull"
  shows "\<exists>d. calibrate_rayleigh_sigma df_cal df_proy = Inr d
           \<and> dict_get d ''small'' = Some (PFloat 40)
           \<and> dict_get d ''medium'' = Some (PFloat 66)
           \<and> dict_get d ''large'' = Some (PFloat 100)
           \<and> dict_get d ''xlarge'' = Some (PFloat 144)
           \<and> dict_get d ''default'' = Some (PFloat 66)
           \<and> dict_get d ''confidence'' = Some (PFloat 0.8)"
proof -
  from assms(3) have "groupby_sum df_cal ''nombre_proyecto'' ''cantidad_defectos_encontrados'' \<noteq> []"
    by (simp add: groupby_sum_empty_iff)
  with assms(1,2) show ?thesis
    by (simp add: calibrate_rayleigh_sigma_def Let_def dict_get_def)
qed

lemma calibrate_rayleigh_sigma_no_data:
  assumes "has_column df_cal ''nombre_proyecto''"
    and "has_column df_cal ''cantidad_defectos_encontrados''"
    and "rows df_cal = []"
  shows "\<exists>d. calibrate_rayleigh_sigma df_cal df_proy = Inr d
           \<and> dict_get d ''xlarge'' = None
           \<and> dict_get d ''confidence'' = Some (PFloat 0.5)"
  using assms
  by (simp add: calibrate_rayleigh_sigma_def Let_def dict_get_def groupby_sum_def sort_by_def)

text \<open>
  C4. The specification gives the tiers as 40 percent of the assumed durations: small 36, medium
  66, large 96, xlarge 144, and a no-data fallback over the same tier labels. The code
  returns small 40 and large 100 for a non-empty collection (beside comments that
  compute 36 and 96), and a fallback without the tier xlarge: both results are evaluated
  here, for a collection of two records of one project and for an empty collection.
\<close>

theorem calibrate_rayleigh_sigma_tiers:
  "calibrate_rayleigh_sigma
     \<lparr>columns = [(''nombre_proyecto'', Object), (''severidad'', Object),
                 (''cantidad_defectos_encontrados'', Numeric)],
      rows = [(\<lambda>c. CNull)(''nombre_proyecto'' := CStr ''ERP-Java-01'', ''severidad'' := CStr ''alta'',
                            ''cantidad_defectos_encontrados'' := CNum 5),
              (\<lambda>c. CNull)(''nombre_proyecto'' := CStr ''ERP-Java-01'', ''severidad'' := CStr ''baja'',
                            ''cantidad_defectos_encontrados'' := CNum 7)]\<rparr> df_proy
   = Inr (PDict [(PStr ''default'', PFloat 66),
                 (PStr ''small'', PFloat 40),
                 (PStr ''medium'', PFloat 66),
                 (PStr ''large'', PFloat 100),
                 (PStr ''xlarge'', PFloat 144),
                 (PStr ''avg_historical_defects'', PFloat 12),
                 (PStr ''std_historical_defects'', PNaN),
                 (PStr ''confidence'', PFloat 0.8)])
   \<and> calibrate_rayleigh_sigma
     \<lparr>columns = [(''nombre_proyecto'', Object), (''severidad'', Object),
                 (''cantidad_defectos_encontrados'', Numeric)],
      rows = []\<rparr> df_proy
   = Inr (PDict [(PStr ''default'', PFloat 60),
                 (PStr ''small'', PFloat 40),
                 (PStr ''medium'', PFloat 60),
                 (PStr ''large'', PFloat 90),
                 (PStr ''confidence'', PFloat 0.5)])"
  by (simp add: calibrate_rayleigh_sigma_def has_column_def groupby_sum_def sort_by_def Let_def
      series_mean_def series_std_def)

subsection \<open>The Rayleigh curve\<close>

lemma trapz_scale: "trapz (map (\<lambda>y. y * c) ys) xs = trapz ys xs * c"
  by (induction ys xs rule: trapz.induct) (simp_all add: algebra_simps)

lemma trapz_nonneg:
  "sorted xs \<Longrightarrow> \<forall>y \<in> set ys. 0 \<le> y \<Longrightarrow> 0 \<le> trapz ys xs"
  by (induction ys xs rule: trapz.induct) auto

lemma rayleigh_pdf_nonneg: "0 \<le> t \<Longrightarrow> 0 \<le> rayleigh_pdf sg t"
  by (simp add: rayleigh_pdf_def)

lemma rayleigh_pdf_pos: "0 < t \<Longrightarrow> sg \<noteq> 0 \<Longrightarrow> 0 < rayleigh_pdf sg t"
  by (simp add: rayleigh_pdf_def)

lemma linspace_sorted:
  assumes "0 \<le> stop"
  shows "sorted (linspace 0 stop n)"
proof -
  have mono: "sorted (map (\<lambda>i. 0 + real i * h) [0..<n])" if "0 \<le> h" for h
    unfolding sorted_map
    by (rule sorted_wrt_mono_rel [OF _ sorted_upt [of 0 n]]) (simp add: mult_right_mono that)
  have step: "0 \<le> (stop - 0) / real (n - 1)"
    using assms by simp
  consider "n = 0" | "n = 1" | "n \<noteq> 0" "n \<noteq> 1" by blast
  then show ?thesis
  proof cases
    case 1
    then show ?thesis by (simp add: linspace_def)
  next
    case 2
    then show ?thesis by (simp add: linspace_def)
  next
    case 3
    then have "linspace 0 stop n = map (\<lambda>i. 0 + real i * ((stop - 0) / real (n - 1))) [0..<n]"
      unfolding linspace_def by (simp only: if_False)
    with mono [OF step] show ?thesis by (simp only:)
  qed
qed

lemma linspace_nonneg: "0 \<le> stop \<Longrightarrow> \<forall>t \<in> set (linspace 0 stop n). 0 \<le> t"
  by (auto simp: linspace_def)

lemma linspace_unfold:
  "2 \<le> n \<Longrightarrow> linspace 0 stop n
     = 0 # stop / real (n - 1) # map (\<lambda>i. real i * (stop / real (n - 1))) [2..<n]"
proof -
  assume n: "2 \<le> n"
  then have "[0..<n] = 0 # 1 # [2..<n]"
    by (simp add: upt_conv_Cons numeral_2_eq_2)
  with n show ?thesis
    by (simp add: linspace_def)
qed

lemma integral_pos:
  assumes n: "2 \<le> n" and stop: "0 < stop" and sg: "sg \<noteq> 0"
  shows "0 < trapz (map (rayleigh_pdf sg) (linspace 0 stop n)) (linspace 0 stop n)"
proof -
  let ?h = "stop / real (n - 1)"
  let ?rest = "map (\<lambda>i. real i * ?h) [2..<n]"
  have h: "0 < ?h" using n stop by simp
  have unfold: "linspace 0 stop n = 0 # ?h # ?rest"
    using n by (rule linspace_unfold)
  have "sorted (linspace 0 stop n)"
    using stop by (intro linspace_sorted) simp
  then have sorted_tl: "sorted (?h # ?rest)"
    unfolding unfold by simp
  have "\<forall>t \<in> set (linspace 0 stop n). 0 \<le> t"
    using stop by (intro linspace_nonneg) simp
  then have "\<forall>t \<in> set (?h # ?rest). 0 \<le> t"
    unfolding unfold by simp
  then have "\<forall>y \<in> set (map (rayleigh_pdf sg) (?h # ?rest)). 0 \<le> y"
    by (auto simp: rayleigh_pdf_nonneg)
  with sorted_tl have tail: "0 \<le> trapz (map (rayleigh_pdf sg) (?h # ?rest)) (?h # ?rest)"
    by (rule trapz_nonneg)
  have "0 < rayleigh_pdf sg ?h + rayleigh_pdf sg 0"
    using rayleigh_pdf_pos [OF h sg] rayleigh_pdf_nonneg [of 0 sg] by linarith
  from mult_pos_pos [OF h this]
  have first: "0 < (?h - 0) * (rayleigh_pdf sg ?h + rayleigh_pdf sg 0) / 2"
    by (simp only: diff_zero zero_less_divide_iff) simp
  have "trapz (map (rayleigh_pdf sg) (linspace 0 stop n)) (linspace 0 stop n)
        = (?h - 0) * (rayleigh_pdf sg ?h + rayleigh_pdf sg 0) / 2
          + trapz (map (rayleigh_pdf sg) (?h # ?rest)) (?h # ?rest)"
    unfolding unfold by simp
  with first tail show ?thesis by linarith
qed


lemma length_linspace: "length (linspace a b n) = n"
  by (simp add: linspace_def)

lemma generate_rayleigh_curve_scaled:
  fixes total_defects sg conf :: real and duration_days :: int
  assumes d: "2 \<le> duration_days" and sg: "sg \<noteq> 0"
  defines "t \<equiv> linspace 0 (of_int duration_days) (nat duration_days)"
  defines "integral \<equiv> trapz (map (rayleigh_pdf sg) t) t"
  defines "dpd \<equiv> map (\<lambda>p. p * (total_defects / integral)) (map (rayleigh_pdf sg) t)"
  shows "0 < integral"
    and "\<exists>c. generate_rayleigh_curve total_defects duration_days (Some sg) conf = Inr c
           \<and> time c = t \<and> defects_per_day c = dpd \<and> peak_day c = sg
           \<and> upper_bound c = map (\<lambda>d. d * (1 + (if conf \<ge> 0.95 then 0.30 else 0.20))) dpd
           \<and> lower_bound c = map (\<lambda>d. max (d * (1 - (if conf \<ge> 0.95 then 0.30 else 0.20))) 0) dpd"
proof -
  from d have n: "2 \<le> nat duration_days" and stop: "(0::real) < of_int duration_days"
    by simp_all
  show pos: "0 < integral"
    unfolding integral_def t_def by (rule integral_pos [OF n stop sg])
  have "length dpd = nat duration_days"
    by (simp add: dpd_def t_def length_linspace)
  with n obtain d0 ds where cons: "dpd = d0 # ds"
    by (cases dpd) auto
  have nonneg: "\<not> duration_days < 0" using d by simp
  show "\<exists>c. generate_rayleigh_curve total_defects duration_days (Some sg) conf = Inr c
           \<and> time c = t \<and> defects_per_day c = dpd \<and> peak_day c = sg
           \<and> upper_bound c = map (\<lambda>d. d * (1 + (if conf \<ge> 0.95 then 0.30 else 0.20))) dpd
           \<and> lower_bound c = map (\<lambda>d. max (d * (1 - (if conf \<ge> 0.95 then 0.30 else 0.20))) 0) dpd"
    unfolding generate_rayleigh_curve_def Let_def
    using pos sg nonneg cons
    unfolding dpd_def integral_def t_def
    by (simp del: map_map)
qed

lemma generate_rayleigh_curve_integral:
  assumes d: "2 \<le> duration_days" and sg: "sg \<noteq> 0" and total: "0 \<le> total_defects"
  shows "\<exists>c. generate_rayleigh_curve total_defects duration_days (Some sg) conf = Inr c
           \<and> length (time c) = nat duration_days
           \<and> length (defects_per_day c) = nat duration_days
           \<and> trapz (defects_per_day c) (time c) = total_defects
           \<and> peak_day c = sg
           \<and> list_all2 (\<le>) (lower_bound c) (defects_per_day c)
           \<and> list_all2 (\<le>) (defects_per_day c) (upper_bound c)"
proof -
  define t where "t = linspace 0 (of_int duration_days) (nat duration_days)"
  define integral where "integral = trapz (map (rayleigh_pdf sg) t) t"
  define dpd where "dpd = map (\<lambda>p. p * (total_defects / integral)) (map (rayleigh_pdf sg) t)"
  define margin :: real where "margin = (if conf \<ge> 0.95 then 0.30 else 0.20)"
  have pos: "0 < integral"
    unfolding integral_def t_def by (rule generate_rayleigh_curve_scaled(1) [OF d sg])
  from generate_rayleigh_curve_scaled(2) [OF d sg, where total_defects = total_defects and conf = conf]
  obtain c where c: "generate_rayleigh_curve total_defects duration_days (Some sg) conf = Inr c"
      "time c = t" "defects_per_day c = dpd" "peak_day c = sg"
      "upper_bound c = map (\<lambda>d. d * (1 + margin)) dpd"
      "lower_bound c = map (\<lambda>d. max (d * (1 - margin)) 0) dpd"
    unfolding t_def integral_def dpd_def margin_def by blast
  have margin: "0 \<le> margin" "margin \<le> 1"
    by (simp_all add: margin_def)
  have len: "length t = nat duration_days" "length dpd = nat duration_days"
    by (simp_all add: t_def dpd_def length_linspace)
  have "trapz dpd t = trapz (map (rayleigh_pdf sg) t) t * (total_defects / integral)"
    unfolding dpd_def by (rule trapz_scale)
  then have "trapz dpd t = integral * (total_defects / integral)"
    by (simp only: integral_def)
  with pos have area: "trapz dpd t = total_defects"
    by simp
  have "\<forall>x \<in> set t. 0 \<le> x"
    unfolding t_def using d by (intro linspace_nonneg) simp
  then have "\<forall>p \<in> set (map (rayleigh_pdf sg) t). 0 \<le> p"
    by (auto simp: rayleigh_pdf_nonneg)
  with pos total have dpd_nonneg: "\<forall>x \<in> set dpd. 0 \<le> x"
    by (auto simp: dpd_def)
  have lower: "list_all2 (\<le>) (map (\<lambda>d. max (d * (1 - margin)) 0) dpd) dpd"
  proof -
    have "max (x * (1 - margin)) 0 \<le> x" if "x \<in> set dpd" for x
    proof -
      from that dpd_nonneg have x: "0 \<le> x" by blast
      with margin have "x * (1 - margin) \<le> x * 1"
        by (intro mult_left_mono) simp_all
      with x show ?thesis by simp
    qed
    then show ?thesis
      by (simp add: list_all2_map1 list_all2_same)
  qed
  have upper: "list_all2 (\<le>) dpd (map (\<lambda>d. d * (1 + margin)) dpd)"
  proof -
    have "x \<le> x * (1 + margin)" if "x \<in> set dpd" for x
    proof -
      from that dpd_nonneg have x: "0 \<le> x" by blast
      with margin have "x * 1 \<le> x * (1 + margin)"
        by (intro mult_left_mono) simp_all
      then show ?thesis by simp
    qed
    then show ?thesis
      by (simp add: list_all2_map2 list_all2_same)
  qed
  from c len area lower upper show ?thesis
    by auto
qed

text \<open>
  C5. For a duration of 180 days, sigma 72 and 100 total defects (and any confidence
  level) \<open>generate_rayleigh_curve\<close> returns a curve of 180 points whose trapezoidal
  integral of defects per day over the time axis is 100 (exactly, over the reals), whose
  peak day is 72, and whose lower bound is at most, and upper bound at least, the defects
  per day at every point.
\<close>

theorem generate_rayleigh_curve_180_72_100:
  "\<exists>c. generate_rayleigh_curve 100 180 (Some 72) conf = Inr c
        \<and> length (time c) = 180
        \<and> length (defects_per_day c) = 180
        \<and> trapz (defects_per_day c) (time c) = 100
        \<and> peak_day c = 72
        \<and> list_all2 (\<le>) (lower_bound c) (defects_per_day c)
        \<and> list_all2 (\<le>) (defects_per_day c) (upper_bound c)"
  using generate_rayleigh_curve_integral [where duration_days = 180 and sg = 72 and total_defects = 100 and conf = conf] by simp

theorem generate_rayleigh_curve_180_72_100_witness:
  "\<exists>c. generate_rayleigh_curve 100 180 (Some 72) 0.95 = Inr c
        \<and> trapz (defects_per_day c) (time c) = 100
        \<and> peak_day c = 72"
  using generate_rayleigh_curve_180_72_100 [where conf = "0.95"] by blast

subsection \<open>QA resources\<close>

lemma recommend_qa_resources_example:
  "recommend_qa_resources 120 6 = Inr \<lparr>qa_engineers = 3,
                   qa_hours_total = 240,
                   qa_hours_per_month = 40,
                   risk_level = ''Alto'',
                   risk_color = ''red'',
                   recommendation = ''Asignar 3 ingeniero(s) QA por 6 meses. Estimar 240 horas totales de pruebas.''\<rparr>"
  by (simp add: recommend_qa_resources_def Let_def py_round_def round_half_even_def py_int_def format_int_def)

text \<open>
  C8. For every predicted defect count that is not negative and every duration of at
  least one month, \<open>recommend_qa_resources\<close> returns, with
  \<open>qa_engineers = ceil(max(predicted/50 * multiplier, 1))\<close>, the multiplier being 1.3
  up to 3 months, 1.0 up to 6 months and 0.9 beyond, and the risk level Bajo below 30
  defects, Medio below 80 and Alto from 80. For 120 defects and 6 months it returns 3
  engineers and the risk level Alto.
\<close>

theorem recommend_qa_resources_spec:
  "(0 \<le> predicted_defects \<and> 1 \<le> duration_months \<longrightarrow>
      (\<exists>rec. recommend_qa_resources predicted_defects duration_months = Inr rec
         \<and> qa_engineers rec
             = \<lceil>max (predicted_defects / 50
                      * (if duration_months \<le> 3 then 1.3
                         else if duration_months \<le> 6 then 1.0 else 0.9)) 1\<rceil>
         \<and> risk_level rec
             = (if predicted_defects < 30 then ''Bajo''
                else if predicted_defects < 80 then ''Medio'' else ''Alto'')))
   \<and> (\<exists>rec. recommend_qa_resources 120 6 = Inr rec
         \<and> qa_engineers rec = 3 \<and> risk_level rec = ''Alto'')"
proof -
  have three: "\<lceil>max (120 / 50 * (1.0::real)) 1\<rceil> = 3"
    by (simp add: ceiling_eq_iff)
  have general: "\<exists>rec. recommend_qa_resources d m = Inr rec
         \<and> qa_engineers rec
             = \<lceil>max (d / 50 * (if m \<le> 3 then 1.3 else if m \<le> 6 then 1.0 else 0.9)) 1\<rceil>
         \<and> risk_level rec
             = (if d < 30 then ''Bajo'' else if d < 80 then ''Medio'' else ''Alto'')"
    if "0 \<le> d" and "1 \<le> m" for d m
    using that by (simp add: recommend_qa_resources_def Let_def)
  from general [of 120 6] three
  have "\<exists>rec. recommend_qa_resources 120 6 = Inr rec
         \<and> qa_engineers rec = 3 \<and> risk_level rec = ''Alto''"
    by auto
  with general [of predicted_defects duration_months] show ?thesis
    by blast
qed

theorem recommend_qa_resources_spec_witness:
  "\<exists>rec. recommend_qa_resources 50 2 = Inr rec
     \<and> qa_engineers rec = 2 \<and> risk_level rec = ''Medio''"
proof -
  have "\<lceil>max (50 / 50 * (1.3::real)) 1\<rceil> = 2"
    by (simp add: ceiling_eq_iff)
  with recommend_qa_resources_spec [of 50 2] show ?thesis
    by auto
qed

subsection \<open>The KPI calculators on empty input\<close>

lemma py_round_0: "py_round 0 n = 0"
  by (simp add: py_round_def round_half_even_def)

lemma py_round_of_int: "py_round (of_int i) n = of_int i"
proof -
  have "round_half_even (of_int k) = k" for k
    by (simp add: round_half_even_def)
  from this [of "i * 10 ^ n"] show ?thesis
    by (simp add: py_round_def)
qed

lemma py_round_numeral: "py_round (numeral k) n = numeral k"
  using py_round_of_int [of "numeral k" n] by simp

lemma calculate_completion_rate_example:
  "calculate_completion_rate
     \<lparr>columns = [(''nombre_proyecto'', Object), (''ganancia_neta'', Numeric),
                 (''costo_total_real'', Numeric)],
      rows = [(\<lambda>c. CNull)(''nombre_proyecto'' := CStr ''A'', ''ganancia_neta'' := CNum 100,
                            ''costo_total_real'' := CNum 80),
              (\<lambda>c. CNull)(''nombre_proyecto'' := CStr ''B'', ''ganancia_neta'' := CNum (-5),
                            ''costo_total_real'' := CNum 50)]\<rparr>
   = Inr (50, PDict [(PStr ''completed'', PInt 1), (PStr ''total'', PInt 2),
                     (PStr ''in_progress'', PInt 1), (PStr ''status'', PStr ''warning'')])"
  by (simp add: calculate_completion_rate_def df_empty_def has_column_def Let_def
      py_round_def round_half_even_def)

lemma completion_rate_empty:
  "df_empty df_proy \<Longrightarrow> calculate_completion_rate df_proy
     = Inr (0, PDict [(PStr ''completed'', PInt 0), (PStr ''total'', PInt 0),
                      (PStr ''status'', PStr ''No data'')])"
  by (simp add: calculate_completion_rate_def)

lemma budget_efficiency_empty:
  "rows df_proy = [] \<Longrightarrow> has_column df_proy ''costo_total_real'' \<Longrightarrow>
   has_column df_proy ''ganancia_neta'' \<Longrightarrow>
   calculate_budget_efficiency df_proy
     = Inr (0, PDict [(PStr ''avg_roi'', PInt 0), (PStr ''projects_analyzed'', PInt 0),
                      (PStr ''status'', PStr ''No data'')])"
  by (simp add: calculate_budget_efficiency_def)

lemma team_utilization_empty:
  "df_empty df_proy \<Longrightarrow> calculate_team_utilization df_proy
     = Inr (0, PDict [(PStr ''active'', PInt 0), (PStr ''total'', PInt 0),
                      (PStr ''status'', PStr ''No data'')])"
  by (simp add: calculate_team_utilization_def)

lemma defect_density_empty:
  "df_empty df_cal \<or> df_empty df_proy \<Longrightarrow> calculate_defect_density df_cal df_proy
     = Inr (0, PDict [(PStr ''total_defects'', PInt 0), (PStr ''projects'', PInt 0),
                      (PStr ''status'', PStr ''No data'')])"
  by (simp add: calculate_defect_density_def)

lemma avg_resolution_time_empty:
  "df_empty df_cal \<Longrightarrow> calculate_avg_resolution_time df_cal
     = Inr (0, PDict [(PStr ''avg_days'', PInt 0), (PStr ''defects'', PInt 0),
                      (PStr ''status'', PStr ''No data'')])"
  by (simp add: calculate_avg_resolution_time_def)

lemma client_satisfaction_empty:
  assumes "rows df_proy = []" and "has_column df_proy ''costo_total_real''"
    and "has_column df_proy ''ganancia_neta''"
  shows "calculate_client_satisfaction df_proy df_cal
     = Inr (60, PDict [(PStr ''index'', PFloat 60),
                       (PStr ''budget_component'', PFloat 0),
                       (PStr ''quality_component'', PFloat 100),
                       (PStr ''budget_efficiency'', PFloat 0),
                       (PStr ''defect_density'', PFloat 0),
                       (PStr ''status'', PStr ''warning'')])"
proof -
  have empty: "df_empty df_proy" using assms(1) by (simp add: df_empty_def)
  show ?thesis
    by (simp add: calculate_client_satisfaction_def budget_efficiency_empty [OF assms]
        defect_density_empty [OF disjI2 [OF empty]] py_round_0 py_round_numeral)
qed

text \<open>
  C1. On empty input five of the six calculators return the value 0 with the status
  No data and zeroed metrics (the five lemmas above; none of them raises on a frame that
  has its columns). \<open>calculate_client_satisfaction\<close> has no such guard: for a Projects
  and a Quality collection without rows it combines a budget score 0 with a quality score
  100 and returns the index 60 with the status warning, not 0 with No data.
\<close>

theorem client_satisfaction_no_rows:
  "calculate_client_satisfaction
     \<lparr>columns = [(''nombre_proyecto'', Object), (''nombre_cliente'', Object),
                 (''ganancia_neta'', Numeric), (''costo_total_real'', Numeric)],
      rows = []\<rparr>
     \<lparr>columns = [(''nombre_proyecto'', Object), (''severidad'', Object),
                 (''cantidad_defectos_encontrados'', Numeric)],
      rows = []\<rparr>
   = Inr (60, PDict [(PStr ''index'', PFloat 60),
                     (PStr ''budget_component'', PFloat 0),
                     (PStr ''quality_component'', PFloat 100),
                     (PStr ''budget_efficiency'', PFloat 0),
                     (PStr ''defect_density'', PFloat 0),
                     (PStr ''status'', PStr ''warning'')])"
  by (rule client_satisfaction_empty) (simp_all add: has_column_def)

end
